theory Spec2Isabelle
  imports Main "HOL-Library.Product_Lexorder" "HOL-Library.List_Lexorder" "HOL-Library.Multiset"
begin

section \<open>DjangoFlix videos: the data model\<close>

text \<open>
  The repository is a Django application. Its one entity is the model class
  \<^verbatim>\<open>Video\<close> of \<^verbatim>\<open>videos/models.py\<close>; the two proxy classes
  \<^verbatim>\<open>VideoAllProxy\<close> and \<^verbatim>\<open>VideoPublishedProxy\<close> share its table and
  its methods. A row of the table and an instance in memory are both a \<open>video\<close> record.

  A \<^verbatim>\<open>DateTimeField\<close> holds a Python \<^verbatim>\<open>datetime\<close>, whose resolution is one
  microsecond: a timestamp is the number of microseconds since the epoch. The clock
  (\<^verbatim>\<open>timezone.now()\<close>) is an effect; every function that reads it takes the
  reading as its argument \<open>now\<close>.
\<close>

type_synonym timestamp = int

definition second :: int where
  "second = 1000000"

definition hour :: int where
  "hour = 3600 * second"

text \<open>
  Modelled from the spec: \<^verbatim>\<open>PublishStateOptions\<close> is imported from
  \<^verbatim>\<open>djangoflix.db.models\<close>, which is not among the source files. Section 3 of the
  specification gives the enumeration: \<^verbatim>\<open>{DRAFT, PUBLISH}\<close>.
\<close>

datatype PublishStateOptions = DRAFT | PUBLISH

text \<open>
  The fields of \<^verbatim>\<open>Video\<close> (models.py, lines 39 to 80) and the primary key that
  Django adds. \<open>pk\<close> is \<open>None\<close> on an instance that was never saved. The nullable
  columns (\<^verbatim>\<open>null=True\<close>) are options.
\<close>

record video =
  pk :: "nat option"
  title :: string
  description :: "string option"
  slug :: "string option"
  video_id :: string
  active :: bool
  created :: timestamp
  updated :: timestamp
  state :: PublishStateOptions
  publish_timestamp :: "timestamp option"

text \<open>The table: its rows, in the order of insertion.\<close>

type_synonym db = "video list"

section \<open>Visibility: the instance check and the queryset filter\<close>

text \<open>
  \<^verbatim>\<open>Video.is_published\<close> (models.py, lines 107 to 116), branch by branch. A
  \<^verbatim>\<open>datetime\<close> is always truthy, so \<^verbatim>\<open>not self.publish_timestamp\<close> holds
  exactly when the field is \<^verbatim>\<open>None\<close>.
\<close>

definition is_published :: "timestamp \<Rightarrow> video \<Rightarrow> bool" where
  "is_published now self =
     (if \<not> active self then False
      else if state self \<noteq> PUBLISH then False
      else (case publish_timestamp self of
              None \<Rightarrow> False
            | Some t \<Rightarrow> t \<le> now))"

text \<open>
  The lookup \<^verbatim>\<open>publish_timestamp__lte=now\<close> becomes the SQL comparison
  \<^verbatim>\<open>publish_timestamp <= now\<close>, which is not true of a row whose column is NULL.
\<close>

fun lookup_lte :: "timestamp option \<Rightarrow> timestamp \<Rightarrow> bool" where
  "lookup_lte None now = False"
| "lookup_lte (Some t) now = (t \<le> now)"

text \<open>
  \<^verbatim>\<open>VideoQuerySet.published\<close> (models.py, lines 17 to 24): the three keyword
  arguments of \<^verbatim>\<open>filter\<close> are one conjunction, tested on every row.
\<close>

definition published_row :: "timestamp \<Rightarrow> video \<Rightarrow> bool" where
  "published_row now r =
     (state r = PUBLISH \<and> lookup_lte (publish_timestamp r) now \<and> active r = True)"

definition published :: "timestamp \<Rightarrow> video list \<Rightarrow> video list" where
  "published now qs = filter (published_row now) qs"

text \<open>\<^verbatim>\<open>Video.get_video_id\<close> (models.py, lines 103 to 105).\<close>

definition get_video_id :: "timestamp \<Rightarrow> video \<Rightarrow> string option" where
  "get_video_id now self = (if is_published now self then Some (video_id self) else None)"

text \<open>A published, active video scheduled at \<open>t\<close>, used to instantiate the theorems.\<close>

definition scheduled :: "timestamp \<Rightarrow> video" where
  "scheduled t =
     \<lparr>pk = Some 1, title = ''Hello, World! 2024'', description = None,
      slug = Some ''hello-world-2024'', video_id = ''abc123'', active = True,
      created = 0, updated = 0, state = PUBLISH, publish_timestamp = Some t\<rparr>"

section \<open>Querysets: ordering, the managers and the admin\<close>

text \<open>
  The three model classes. Each carries its own \<^verbatim>\<open>Meta.ordering\<close>; the fields,
  the methods and the manager \<^verbatim>\<open>objects = VideoManager()\<close> are inherited.
\<close>

datatype model = Video | VideoAllProxy | VideoPublishedProxy

text \<open>
  The entries the source's ordering lists use: \<^verbatim>\<open>'-publish_timestamp'\<close> and
  \<^verbatim>\<open>'-created'\<close>, both descending.
\<close>

datatype ordering_term = Desc_publish_timestamp | Desc_created

text \<open>
  \<^verbatim>\<open>Meta.ordering\<close> of \<^verbatim>\<open>Video\<close> (models.py, line 85), of
  \<^verbatim>\<open>VideoAllProxy\<close> (line 129) and of \<^verbatim>\<open>VideoPublishedProxy\<close> (line 138).
\<close>

fun Meta_ordering :: "model \<Rightarrow> ordering_term list" where
  "Meta_ordering Video = [Desc_publish_timestamp, Desc_created]"
| "Meta_ordering VideoAllProxy = [Desc_created]"
| "Meta_ordering VideoPublishedProxy = [Desc_publish_timestamp]"

text \<open>
  \<^verbatim>\<open>ORDER BY\<close> sorts by a key: rows are compared term by term, a descending term
  by the negated value. Where a database puts NULL is not the repository's choice (the
  settings module is not among the source files): \<open>nulls_high\<close> says whether NULL
  counts as larger than every value (PostgreSQL: first when descending) or as smaller
  (SQLite, MySQL: last when descending). Rows that tie on every term stay in table
  order, one of the orders SQL permits.
\<close>

fun term_key :: "bool \<Rightarrow> ordering_term \<Rightarrow> video \<Rightarrow> nat \<times> int" where
  "term_key nulls_high Desc_created r = (0, - created r)"
| "term_key nulls_high Desc_publish_timestamp r =
     (case publish_timestamp r of
        None \<Rightarrow> (if nulls_high then (0, 0) else (1, 0))
      | Some t \<Rightarrow> (if nulls_high then (1, - t) else (0, - t)))"

definition order_key :: "bool \<Rightarrow> ordering_term list \<Rightarrow> video \<Rightarrow> (nat \<times> int) list" where
  "order_key nulls_high terms r = map (\<lambda>t. term_key nulls_high t r) terms"

definition order_by :: "bool \<Rightarrow> ordering_term list \<Rightarrow> video list \<Rightarrow> video list" where
  "order_by nulls_high terms qs = sort_key (order_key nulls_high terms) qs"

text \<open>
  \<^verbatim>\<open>VideoManager.get_queryset\<close> (models.py, lines 29 and 30): every row of the
  table, in the \<^verbatim>\<open>Meta.ordering\<close> of the model the manager is reached through.
  \<^verbatim>\<open>VideoManager.published\<close> (lines 32 to 34) chains the filter.
\<close>

definition VideoManager_get_queryset :: "bool \<Rightarrow> model \<Rightarrow> db \<Rightarrow> video list" where
  "VideoManager_get_queryset nulls_high m db = order_by nulls_high (Meta_ordering m) db"

definition VideoManager_published :: "bool \<Rightarrow> model \<Rightarrow> timestamp \<Rightarrow> db \<Rightarrow> video list" where
  "VideoManager_published nulls_high m now db =
     published now (VideoManager_get_queryset nulls_high m db)"

text \<open>
  \<^verbatim>\<open>VideoPublishedProxyAdmin\<close> (admin.py, lines 62 to 79). Django's
  \<^verbatim>\<open>ModelAdmin.get_queryset\<close> takes the queryset of the model's default manager,
  here the inherited \<^verbatim>\<open>VideoManager\<close>, and orders it by the admin's
  \<^verbatim>\<open>ordering\<close> (line 74); the override then filters on \<^verbatim>\<open>active=True\<close>
  and on nothing else. The method \<^verbatim>\<open>get_queryset\<close> that models.py defines on the
  model class \<^verbatim>\<open>VideoPublishedProxy\<close> (lines 140 to 142) is not a manager method:
  nothing calls it, so \<^verbatim>\<open>published()\<close> takes no part in this queryset.
\<close>

definition VideoPublishedProxyAdmin_ordering :: "ordering_term list" where
  "VideoPublishedProxyAdmin_ordering = [Desc_publish_timestamp]"

definition ModelAdmin_get_queryset :: "bool \<Rightarrow> ordering_term list \<Rightarrow> db \<Rightarrow> video list" where
  "ModelAdmin_get_queryset nulls_high terms db =
     (if terms \<noteq> [] then order_by nulls_high terms db else db)"

definition VideoPublishedProxyAdmin_get_queryset :: "bool \<Rightarrow> db \<Rightarrow> video list" where
  "VideoPublishedProxyAdmin_get_queryset nulls_high db =
     filter (\<lambda>r. active r = True)
       (ModelAdmin_get_queryset nulls_high VideoPublishedProxyAdmin_ordering db)"

section \<open>Errors\<close>

text \<open>
  The failures of the write path, named as section 7 of the specification names them,
  and the two Python exceptions of the admin code. \<open>MissingPublishTimestamp\<close> is the
  \<^verbatim>\<open>ValidationError\<close> that \<^verbatim>\<open>Video.clean\<close> raises (models.py, line 98).
\<close>

datatype error =
    MissingPublishTimestamp
  | DuplicateSlug
  | DuplicateExternalId
  | NameError string
  | AttributeError string

text \<open>
  \<^verbatim>\<open>VideoPublishedProxy.get_queryset\<close> (models.py, lines 140 to 142) is an
  instance method of the model class. \<^verbatim>\<open>super().get_queryset()\<close> looks the
  attribute up in the bases of \<^verbatim>\<open>VideoPublishedProxy\<close>: \<^verbatim>\<open>Video\<close>, whose
  body (lines 36 to 120) defines no \<^verbatim>\<open>get_queryset\<close>, and Django's
  \<^verbatim>\<open>Model\<close>, which has none either (querysets come from managers). A call
  therefore raises \<^verbatim>\<open>AttributeError\<close> before \<^verbatim>\<open>published()\<close> is reached.
\<close>

definition super_get_queryset :: "db \<Rightarrow> error + video list" where
  "super_get_queryset db = Inl (AttributeError ''get_queryset'')"

definition VideoPublishedProxy_get_queryset :: "timestamp \<Rightarrow> db \<Rightarrow> error + video list" where
  "VideoPublishedProxy_get_queryset now db =
     (case super_get_queryset db of
        Inl e \<Rightarrow> Inl e
      | Inr qs \<Rightarrow> Inr (published now qs))"

section \<open>The bulk action of the admin\<close>

text \<open>
  \<^verbatim>\<open>QuerySet.update\<close> is one SQL \<^verbatim>\<open>UPDATE\<close>: it changes the rows the
  queryset selects, returns how many it matched, and calls neither \<^verbatim>\<open>save\<close> nor
  the signal receivers nor \<^verbatim>\<open>auto_now\<close>. A queryset is given by the condition
  that selects its rows.
\<close>

definition QuerySet_update :: "(video \<Rightarrow> bool) \<Rightarrow> (video \<Rightarrow> video) \<Rightarrow> db \<Rightarrow> nat \<times> db" where
  "QuerySet_update queryset f db =
     (length (filter queryset db), map (\<lambda>r. if queryset r then f r else r) db)"

text \<open>
  The names that admin.py binds at module level: its three import statements (lines 1
  to 3) and its two classes. \<^verbatim>\<open>messages\<close> is not among them and is not a Python
  builtin, so evaluating it raises \<^verbatim>\<open>NameError\<close>.
\<close>

definition admin_globals :: "string list" where
  "admin_globals =
     [''admin'', ''format_html'', ''VideoAllProxy'', ''VideoPublishedProxy'',
      ''VideoAllAdmin'', ''VideoPublishedProxyAdmin'']"

definition lookup_global :: "string \<Rightarrow> error + unit" where
  "lookup_global name = (if name \<in> set admin_globals then Inr () else Inl (NameError name))"

text \<open>
  \<^verbatim>\<open>VideoPublishedProxyAdmin.unpublish_selected\<close> (admin.py, lines 94 to 102).
  The update runs first. The arguments of \<^verbatim>\<open>self.message_user\<close> are evaluated
  before the call: the third, \<^verbatim>\<open>messages.SUCCESS\<close>, looks the name
  \<^verbatim>\<open>messages\<close> up. The result is the count (the source's variable
  \<^verbatim>\<open>updated\<close>) that the message reports to the user, or the exception; the
  table is returned as the update left it (Django's default autocommit).
\<close>

definition unpublish_selected :: "(video \<Rightarrow> bool) \<Rightarrow> db \<Rightarrow> (error + nat) \<times> db" where
  "unpublish_selected queryset db =
     (case QuerySet_update queryset (\<lambda>r. r\<lparr>active := False\<rparr>) db of
        (n_updated, db') \<Rightarrow>
          (case lookup_global ''messages'' of
             Inl e \<Rightarrow> (Inl e, db')
           | Inr _ \<Rightarrow> (Inr n_updated, db')))"

section \<open>The write path\<close>

text \<open>
  \<^verbatim>\<open>Video.clean\<close> (models.py, lines 95 to 101). \<^verbatim>\<open>not self.publish_timestamp\<close>
  is true exactly of \<^verbatim>\<open>None\<close>; \<^verbatim>\<open>super().clean()\<close> is Django's empty hook.
\<close>

definition clean :: "video \<Rightarrow> error + unit" where
  "clean self =
     (if state self = PUBLISH \<and> publish_timestamp self = None
      then Inl MissingPublishTimestamp
      else Inr ())"

subsection \<open>The slug\<close>

text \<open>
  Modelled from the spec: the receiver \<^verbatim>\<open>slugify_pre_save\<close> is imported from
  \<^verbatim>\<open>djangoflix.db.receivers\<close>, which is not among the source files. Section 4.2
  of the specification describes it: if the slug is null or empty, derive a URL-safe
  token from the title (lowercase, non-alphanumeric runs collapsed to a single
  separator, leading and trailing separators trimmed) and set it; otherwise leave the
  slug untouched. Characters are bytes; the alphanumeric ones are the ASCII letters and
  digits, and the separator is the hyphen of the specification's example.
\<close>

definition is_upper :: "char \<Rightarrow> bool" where
  "is_upper c = (65 \<le> (of_char c :: nat) \<and> (of_char c :: nat) \<le> 90)"

definition is_lower :: "char \<Rightarrow> bool" where
  "is_lower c = (97 \<le> (of_char c :: nat) \<and> (of_char c :: nat) \<le> 122)"

definition is_digit :: "char \<Rightarrow> bool" where
  "is_digit c = (48 \<le> (of_char c :: nat) \<and> (of_char c :: nat) \<le> 57)"

definition is_alnum :: "char \<Rightarrow> bool" where
  "is_alnum c = (is_upper c \<or> is_lower c \<or> is_digit c)"

definition to_lower :: "char \<Rightarrow> char" where
  "to_lower c = (if is_upper c then char_of ((of_char c :: nat) + 32) else c)"

definition separator :: char where
  "separator = CHR ''-''"

text \<open>
  Lowercase the alphanumeric characters and put one separator for each run of other
  characters; \<open>in_run\<close> says that the previous character belonged to such a run.
\<close>

fun collapse :: "bool \<Rightarrow> string \<Rightarrow> string" where
  "collapse in_run [] = []"
| "collapse in_run (c # cs) =
     (if is_alnum c then to_lower c # collapse False cs
      else if in_run then collapse True cs
      else separator # collapse True cs)"

definition lstrip :: "string \<Rightarrow> string" where
  "lstrip s = dropWhile (\<lambda>c. c = separator) s"

fun rstrip :: "string \<Rightarrow> string" where
  "rstrip [] = []"
| "rstrip (c # cs) = (if rstrip cs = [] \<and> c = separator then [] else c # rstrip cs)"

text \<open>
  Modelled from the spec: the token that section 4.2 derives from a title, the three
  steps in its order.
\<close>

definition slugify :: "string \<Rightarrow> string" where
  "slugify s = rstrip (lstrip (collapse False s))"

text \<open>
  Modelled from the spec: the receiver \<^verbatim>\<open>slugify_pre_save\<close>, the specification's
  \<^verbatim>\<open>assignIfMissing\<close>. It changes the instance in memory and nothing else.
\<close>

definition slugify_pre_save :: "video \<Rightarrow> video" where
  "slugify_pre_save r =
     (if slug r = None \<or> slug r = Some []
      then r\<lparr>slug := Some (slugify (title r))\<rparr>
      else r)"

text \<open>
  What a URL-safe token is: lowercase letters, digits and separators only, no two
  separators in a row, and no separator at either end.
\<close>

definition slug_char :: "char \<Rightarrow> bool" where
  "slug_char c = (is_lower c \<or> is_digit c \<or> c = separator)"

fun no_double :: "string \<Rightarrow> bool" where
  "no_double (x # y # zs) = (\<not> (x = separator \<and> y = separator) \<and> no_double (y # zs))"
| "no_double _ = True"

definition url_safe :: "string \<Rightarrow> bool" where
  "url_safe s =
     (list_all slug_char s \<and> no_double s \<and>
      (case s of [] \<Rightarrow> True | c # _ \<Rightarrow> c \<noteq> separator \<and> last s \<noteq> separator))"

subsection \<open>Saving\<close>

text \<open>
  Modelled from the spec: the receiver \<^verbatim>\<open>publish_state_pre_save\<close> is imported
  from \<^verbatim>\<open>djangoflix.db.receivers\<close>, which is not among the source files. The
  specification (sections 2, 4.1 and 9) makes the pre-save hooks the pre-commit steps
  of the write path, validation and slug assignment: validation is called before every
  commit, and a failing validation aborts the write. The validation itself is
  \<open>clean\<close>, from the source.
\<close>

definition publish_state_pre_save :: "video \<Rightarrow> error + video" where
  "publish_state_pre_save r = (case clean r of Inl e \<Rightarrow> Inl e | Inr _ \<Rightarrow> Inr r)"

text \<open>
  The loop at the end of models.py (lines 144 to 149) connects the two receivers to
  \<^verbatim>\<open>pre_save\<close> of all three model classes. Django calls receivers in the order
  of connection, and an exception raised by one aborts the save.
\<close>

definition pre_save :: "video \<Rightarrow> error + video" where
  "pre_save r =
     (case publish_state_pre_save r of
        Inl e \<Rightarrow> Inl e
      | Inr r1 \<Rightarrow> Inr (slugify_pre_save r1))"

text \<open>
  Modelled from the spec: the persistence engine is outside the repository. Sections
  3, 6 and 7 of the specification give its contract: the identifier is assigned at
  creation, \<^verbatim>\<open>created\<close> is set once, \<^verbatim>\<open>updated\<close> on every write, and the
  unique constraints on \<^verbatim>\<open>slug\<close> and \<^verbatim>\<open>video_id\<close> reject a write at commit
  time. A NULL slug never collides (SQL). An instance without a primary key is
  inserted; one with the primary key of a stored row replaces that row.
\<close>

definition fresh_pk :: "db \<Rightarrow> nat" where
  "fresh_pk db = Suc (fold max (map (\<lambda>r. case pk r of None \<Rightarrow> 0 | Some i \<Rightarrow> i) db) 0)"

definition persist :: "timestamp \<Rightarrow> video \<Rightarrow> db \<Rightarrow> (error + video) \<times> db" where
  "persist now r db =
     (let others = filter (\<lambda>x. pk x \<noteq> pk r) db in
      if slug r \<noteq> None \<and> slug r \<in> set (map slug others) then (Inl DuplicateSlug, db)
      else if video_id r \<in> set (map video_id others) then (Inl DuplicateExternalId, db)
      else (case pk r of
              None \<Rightarrow>
                (let r' = r\<lparr>pk := Some (fresh_pk db), created := now, updated := now\<rparr>
                 in (Inr r', db @ [r']))
            | Some i \<Rightarrow>
                (case find (\<lambda>x. pk x = Some i) db of
                   None \<Rightarrow>
                     (let r' = r\<lparr>created := now, updated := now\<rparr>
                      in (Inr r', db @ [r']))
                 | Some old \<Rightarrow>
                     (let r' = r\<lparr>created := created old, updated := now\<rparr>
                      in (Inr r', map (\<lambda>x. if pk x = Some i then r' else x) db)))))"

text \<open>
  Modelled from the spec: the write path of section 2, for create (an instance without
  a primary key) and update (an instance loaded from the table and changed) alike: the
  pre-save receivers, then the commit. A failure returns the table as it was.
\<close>

definition save :: "timestamp \<Rightarrow> video \<Rightarrow> db \<Rightarrow> (error + video) \<times> db" where
  "save now r db =
     (case pre_save r of
        Inl e \<Rightarrow> (Inl e, db)
      | Inr r' \<Rightarrow> persist now r' db)"

text \<open>
  The invariant of a stored record, and the tables the write operations of the
  repository can produce from the empty table: saves and the bulk action.
\<close>

definition video_invariant :: "video \<Rightarrow> bool" where
  "video_invariant r = (state r = PUBLISH \<longrightarrow> publish_timestamp r \<noteq> None)"

definition db_invariant :: "db \<Rightarrow> bool" where
  "db_invariant db = list_all video_invariant db"

inductive reachable :: "db \<Rightarrow> bool" where
  empty: "reachable []"
| saved: "reachable db \<Longrightarrow> reachable (snd (save now r db))"
| unpublished: "reachable db \<Longrightarrow> reachable (snd (unpublish_selected queryset db))"

section \<open>Example tables\<close>

text \<open>A draft without a publish timestamp; active, as a new record is by default.\<close>

definition draft_video :: video where
  "draft_video = (scheduled 100)\<lparr>state := DRAFT, publish_timestamp := None\<rparr>"

text \<open>Three published records, and the condition that selects rows by primary key.\<close>

definition three_published :: db where
  "three_published =
     [(scheduled 100)\<lparr>pk := Some 1, video_id := ''v1'', slug := Some ''one''\<rparr>,
      (scheduled 100)\<lparr>pk := Some 2, video_id := ''v2'', slug := Some ''two''\<rparr>,
      (scheduled 100)\<lparr>pk := Some 3, video_id := ''v3'', slug := Some ''three''\<rparr>]"

definition selected :: "nat list \<Rightarrow> video \<Rightarrow> bool" where
  "selected pks r = (case pk r of None \<Rightarrow> False | Some i \<Rightarrow> i \<in> set pks)"

text \<open>Two records: \<open>row_a\<close> is published later, \<open>row_b\<close> is created later.\<close>

definition row_a :: video where
  "row_a = (scheduled 200)\<lparr>pk := Some 1, video_id := ''a'', slug := Some ''a'', created := 1\<rparr>"

definition row_b :: video where
  "row_b = (scheduled 100)\<lparr>pk := Some 2, video_id := ''b'', slug := Some ''b'', created := 2\<rparr>"

section \<open>Visibility: theorems\<close>

lemma published_row_iff: "published_row now r = is_published now r"
  by (cases "publish_timestamp r") (auto simp: published_row_def is_published_def)

text \<open>
  Claim C1. At one fixed reading \<open>now\<close> of the clock, a row passes the filter of
  \<^verbatim>\<open>published()\<close> exactly when \<^verbatim>\<open>is_published\<close> is true of it, so the
  queryset \<^verbatim>\<open>published()\<close> is the list of the rows that \<^verbatim>\<open>is_published\<close>
  accepts: the two implementations of visibility never diverge.
\<close>

theorem published_filter_equiv_is_published:
  "published_row now r = is_published now r \<and>
   published now qs = filter (is_published now) qs"
proof -
  have "published_row now = is_published now"
    by (rule ext) (rule published_row_iff)
  then show ?thesis
    by (simp add: published_def)
qed

text \<open>
  Claim C2. \<^verbatim>\<open>is_published\<close> is true exactly when the four conjuncts hold: the
  video is active, its state is PUBLISH, its publish timestamp is present, and that
  timestamp is not after \<open>now\<close>. In particular an inactive video is never visible,
  whatever its state and timestamp (the kill-switch).
\<close>

theorem is_published_four_conjuncts:
  "(is_published now r \<longleftrightarrow>
      active r = True \<and> state r = PUBLISH \<and> publish_timestamp r \<noteq> None \<and>
      (\<exists>t. publish_timestamp r = Some t \<and> t \<le> now)) \<and>
   (state r = PUBLISH \<and> (\<exists>t. publish_timestamp r = Some t \<and> t \<le> now) \<and> active r = False
      \<longrightarrow> \<not> is_published now r)"
  by (cases "publish_timestamp r") (auto simp: is_published_def)

theorem is_published_four_conjuncts_witness:
  "\<not> is_published 200 ((scheduled 100)\<lparr>active := False\<rparr>) \<and>
   is_published 200 (scheduled 100)"
  using is_published_four_conjuncts [of 200 "(scheduled 100)\<lparr>active := False\<rparr>"]
    is_published_four_conjuncts [of 200 "scheduled 100"]
  by (simp add: scheduled_def)

text \<open>
  Claim C7. A video with state PUBLISH, active, and a publish timestamp one hour after
  the evaluation time is not visible at the evaluation time; it is visible one second
  after its publish timestamp, and already at the publish timestamp itself, since the
  time gate compares with \<open>\<le>\<close>.
\<close>

theorem is_published_time_gate:
  assumes "state r = PUBLISH" and "active r = True"
    and "publish_timestamp r = Some (now + hour)"
  shows "\<not> is_published now r \<and>
         is_published (now + hour + second) r \<and>
         is_published (now + hour) r"
  using assms by (simp add: is_published_def hour_def second_def)

theorem is_published_time_gate_witness:
  "\<not> is_published 1000 (scheduled (1000 + hour)) \<and>
   is_published (1000 + hour + second) (scheduled (1000 + hour)) \<and>
   is_published (1000 + hour) (scheduled (1000 + hour))"
proof -
  have "state (scheduled (1000 + hour)) = PUBLISH"
    and "active (scheduled (1000 + hour)) = True"
    and "publish_timestamp (scheduled (1000 + hour)) = Some (1000 + hour)"
    by (simp_all add: scheduled_def)
  then show ?thesis
    by (rule is_published_time_gate)
qed

text \<open>
  Claim C9. \<^verbatim>\<open>get_video_id\<close> returns the external video identifier when
  \<^verbatim>\<open>is_published\<close> is true and \<^verbatim>\<open>None\<close> otherwise; whatever it returns is the
  identifier of a video that is visible at that time.
\<close>

theorem get_video_id_only_when_published:
  "(is_published now r \<longrightarrow> get_video_id now r = Some (video_id r)) \<and>
   (\<not> is_published now r \<longrightarrow> get_video_id now r = None) \<and>
   (\<forall>v. get_video_id now r = Some v \<longrightarrow> is_published now r \<and> v = video_id r)"
  by (simp add: get_video_id_def)

theorem get_video_id_only_when_published_witness:
  "get_video_id 200 (scheduled 100) = Some ''abc123'' \<and>
   get_video_id 50 (scheduled 100) = None"
  using get_video_id_only_when_published [of 200 "scheduled 100"]
    get_video_id_only_when_published [of 50 "scheduled 100"]
  by (simp add: scheduled_def is_published_def)

section \<open>The published view of the admin\<close>

lemma set_order_by: "set (order_by nh terms qs) = set qs"
  by (simp add: order_by_def)

lemma admin_queryset_set:
  "set (VideoPublishedProxyAdmin_get_queryset nh db) = {r \<in> set db. active r}"
  by (auto simp: VideoPublishedProxyAdmin_get_queryset_def ModelAdmin_get_queryset_def set_order_by)

lemma manager_published_set:
  "set (VideoManager_published nh m now db) = {r \<in> set db. is_published now r}"
  by (auto simp: VideoManager_published_def VideoManager_get_queryset_def published_def
      set_order_by published_row_iff)

text \<open>
  Claim C6. The claim fails on the code. The queryset of the admin's published view is
  filtered on \<^verbatim>\<open>active=True\<close> only: a draft, and a record scheduled an hour
  ahead, are both listed, although neither is visible and \<^verbatim>\<open>published()\<close>
  selects neither. The method of the proxy class that would apply
  \<^verbatim>\<open>published()\<close> raises instead of returning a queryset.
\<close>

theorem published_admin_lists_unpublished:
  "VideoPublishedProxyAdmin_get_queryset nh [draft_video] = [draft_video] \<and>
   \<not> is_published now draft_video \<and>
   published now [draft_video] = [] \<and>
   VideoPublishedProxyAdmin_get_queryset nh [scheduled (now + hour)] = [scheduled (now + hour)] \<and>
   \<not> is_published now (scheduled (now + hour)) \<and>
   published now [scheduled (now + hour)] = [] \<and>
   VideoPublishedProxy_get_queryset now [draft_video] = Inl (AttributeError ''get_queryset'')"
  by (simp add: VideoPublishedProxyAdmin_get_queryset_def ModelAdmin_get_queryset_def
      VideoPublishedProxyAdmin_ordering_def order_by_def draft_video_def scheduled_def
      is_published_def published_def published_row_def hour_def second_def
      VideoPublishedProxy_get_queryset_def super_get_queryset_def)

section \<open>Default ordering\<close>

lemma order_key_Video_le:
  assumes "order_key nh (Meta_ordering Video) a \<le> order_key nh (Meta_ordering Video) b"
  shows "(\<forall>ta tb. publish_timestamp a = Some ta \<longrightarrow> publish_timestamp b = Some tb \<longrightarrow>
            tb < ta \<or> (tb = ta \<and> created b \<le> created a)) \<and>
         (publish_timestamp a = None \<longrightarrow> publish_timestamp b = None \<longrightarrow>
            created b \<le> created a)"
  using assms
  by (cases "publish_timestamp a"; cases "publish_timestamp b"; cases nh)
     (auto simp: order_key_def)

lemma order_by_sorted:
  "sorted_wrt (\<lambda>a b. order_key nh terms a \<le> order_key nh terms b) (order_by nh terms qs)"
  using sorted_sort_key [of "order_key nh terms" qs]
  by (simp add: order_by_def sorted_map)

lemma order_by_mset: "mset (order_by nh terms qs) = mset qs"
  by (simp add: order_by_def)

lemma Video_order_example:
  "VideoManager_get_queryset nh Video [row_b, row_a] = [row_a, row_b]"
  by (simp add: VideoManager_get_queryset_def order_by_def order_key_def row_a_def row_b_def
      scheduled_def)

lemma VideoAllProxy_order_example:
  "VideoManager_get_queryset nh VideoAllProxy [row_b, row_a] = [row_b, row_a]"
  by (simp add: VideoManager_get_queryset_def order_by_def order_key_def row_a_def row_b_def
      scheduled_def)

text \<open>
  Claim C10. The default queryset of \<^verbatim>\<open>Video\<close> holds the rows of the table, each
  once, sorted by publish timestamp descending, ties broken by creation time
  descending: of two rows that both have a publish timestamp, the earlier one in the
  result has the later timestamp, or the same timestamp and a creation time that is
  not earlier; rows that both lack one are in creation order, descending. This is not
  the ordering of \<^verbatim>\<open>VideoAllProxy\<close>, which is creation time descending: on the
  table of \<open>row_b\<close> and \<open>row_a\<close> the two default querysets differ.
\<close>

theorem Video_default_ordering:
  "sorted_wrt (\<lambda>a b.
       (\<forall>ta tb. publish_timestamp a = Some ta \<longrightarrow> publish_timestamp b = Some tb \<longrightarrow>
            tb < ta \<or> (tb = ta \<and> created b \<le> created a)) \<and>
       (publish_timestamp a = None \<longrightarrow> publish_timestamp b = None \<longrightarrow>
            created b \<le> created a))
     (VideoManager_get_queryset nh Video db) \<and>
   mset (VideoManager_get_queryset nh Video db) = mset db \<and>
   Meta_ordering Video \<noteq> Meta_ordering VideoAllProxy \<and>
   VideoManager_get_queryset nh Video [row_b, row_a] \<noteq>
     VideoManager_get_queryset nh VideoAllProxy [row_b, row_a]"
proof -
  have "sorted_wrt
          (\<lambda>a b. order_key nh (Meta_ordering Video) a \<le> order_key nh (Meta_ordering Video) b)
          (VideoManager_get_queryset nh Video db)"
    unfolding VideoManager_get_queryset_def by (rule order_by_sorted)
  then have srt: "sorted_wrt (\<lambda>a b.
       (\<forall>ta tb. publish_timestamp a = Some ta \<longrightarrow> publish_timestamp b = Some tb \<longrightarrow>
            tb < ta \<or> (tb = ta \<and> created b \<le> created a)) \<and>
       (publish_timestamp a = None \<longrightarrow> publish_timestamp b = None \<longrightarrow>
            created b \<le> created a))
     (VideoManager_get_queryset nh Video db)"
    by (rule sorted_wrt_mono_rel [rotated]) (rule order_key_Video_le)
  have perm: "mset (VideoManager_get_queryset nh Video db) = mset db"
    by (simp add: VideoManager_get_queryset_def order_by_mset)
  have neq: "row_a \<noteq> row_b"
    by (simp add: row_a_def row_b_def scheduled_def)
  have diff: "VideoManager_get_queryset nh Video [row_b, row_a] \<noteq>
     VideoManager_get_queryset nh VideoAllProxy [row_b, row_a]"
    using neq by (simp add: Video_order_example VideoAllProxy_order_example)
  from srt perm diff show ?thesis by simp
qed

theorem Video_default_ordering_witness:
  "VideoManager_get_queryset False Video [row_b, row_a] = [row_a, row_b] \<and>
   VideoManager_get_queryset False VideoAllProxy [row_b, row_a] = [row_b, row_a] \<and>
   publish_timestamp row_a = Some 200 \<and> publish_timestamp row_b = Some 100 \<and>
   created row_a = 1 \<and> created row_b = 2"
proof -
  have fields: "publish_timestamp row_a = Some 200 \<and> publish_timestamp row_b = Some 100 \<and>
      created row_a = 1 \<and> created row_b = 2"
    by (simp add: row_a_def row_b_def scheduled_def)
  from Video_default_ordering [of False "[row_b, row_a]"] fields show ?thesis
    by (simp add: Video_order_example VideoAllProxy_order_example)
qed

section \<open>The bulk action\<close>

lemma lookup_messages: "lookup_global ''messages'' = Inl (NameError ''messages'')"
  by (simp add: lookup_global_def admin_globals_def)

lemma unpublish_selected_result:
  "unpublish_selected q db =
     (Inl (NameError ''messages''), map (\<lambda>r. if q r then r\<lparr>active := False\<rparr> else r) db)"
  by (simp add: unpublish_selected_def QuerySet_update_def lookup_messages)

text \<open>What does hold of the update: the count, the frame, and the two listings.\<close>

lemma QuerySet_update_count: "fst (QuerySet_update q f db) = length (filter q db)"
  by (simp add: QuerySet_update_def)

lemma unpublish_sets_inactive:
  "r \<in> set db \<Longrightarrow> q r \<Longrightarrow> r\<lparr>active := False\<rparr> \<in> set (snd (unpublish_selected q db))"
  by (force simp: unpublish_selected_result)

lemma unpublish_frame:
  "map (\<lambda>r. r\<lparr>active := True\<rparr>) (snd (unpublish_selected q db)) =
   map (\<lambda>r. r\<lparr>active := True\<rparr>) db"
  by (simp add: unpublish_selected_result)

lemma unpublish_not_published:
  "r \<in> set (published now (snd (unpublish_selected q db))) \<Longrightarrow> r \<in> set db \<and> \<not> q r"
  by (auto simp: unpublish_selected_result published_def published_row_def split: if_splits)

lemma unpublish_keeps_rows:
  "map pk (VideoManager_get_queryset nh VideoAllProxy (snd (unpublish_selected q db))) =
   map pk (VideoManager_get_queryset nh VideoAllProxy db) \<and>
   map state (snd (unpublish_selected q db)) = map state db"
proof -
  let ?f = "\<lambda>r. if q r then r\<lparr>active := False\<rparr> else r"
  have "term_key nh t (?f r) = term_key nh t r" for t r
    by (cases t) simp_all
  then have key: "order_key nh terms (?f r) = order_key nh terms r" for terms r
    by (simp add: order_key_def)
  have "sort_key (order_key nh terms) (map ?f xs) = map ?f (sort_key (order_key nh terms) xs)"
    for terms xs
  proof (induction xs)
    case Nil
    show ?case by simp
  next
    case (Cons x xs)
    have "insort_key (order_key nh terms) (?f x) (map ?f ys) =
          map ?f (insort_key (order_key nh terms) x ys)" for ys
      by (induction ys) (simp_all add: key del: term_key.simps)
    with Cons show ?case by simp
  qed
  then show ?thesis
    by (simp add: unpublish_selected_result VideoManager_get_queryset_def order_by_def
        comp_def)
qed

text \<open>
  Claim C5. The claim fails on the code at its count. On three published records the
  update sets \<^verbatim>\<open>active\<close> to false on all three and matches three rows, then the
  action raises \<^verbatim>\<open>NameError\<close> on \<^verbatim>\<open>messages\<close>: the count is never reported.
\<close>

theorem unpublish_selected_three_raises:
  "unpublish_selected (selected [1, 2, 3]) three_published =
     (Inl (NameError ''messages''), map (\<lambda>r. r\<lparr>active := False\<rparr>) three_published) \<and>
   fst (QuerySet_update (selected [1, 2, 3]) (\<lambda>r. r\<lparr>active := False\<rparr>) three_published) = 3"
  by (simp add: unpublish_selected_result QuerySet_update_def three_published_def selected_def
      scheduled_def)

section \<open>Validation and the write path\<close>

lemma clean_fails_iff:
  "clean r = Inl MissingPublishTimestamp \<longleftrightarrow> state r = PUBLISH \<and> publish_timestamp r = None"
  by (simp add: clean_def)

lemma clean_cases: "clean r = Inl MissingPublishTimestamp \<or> clean r = Inr ()"
  by (simp add: clean_def)

lemma pre_save_fail:
  "state r = PUBLISH \<and> publish_timestamp r = None \<Longrightarrow> pre_save r = Inl MissingPublishTimestamp"
  by (simp add: pre_save_def publish_state_pre_save_def clean_def)

lemma pre_save_ok:
  "\<not> (state r = PUBLISH \<and> publish_timestamp r = None) \<Longrightarrow>
   pre_save r = Inr (slugify_pre_save r)"
  by (simp add: pre_save_def publish_state_pre_save_def clean_def)

lemma persist_no_validation_error: "fst (persist now r db) \<noteq> Inl MissingPublishTimestamp"
  by (simp add: persist_def Let_def split: option.split)

lemma persist_isl_unchanged:
  "isl (fst (persist now r db)) \<longrightarrow> snd (persist now r db) = db"
  by (simp add: persist_def Let_def split: option.split)

lemma persist_rejected_unchanged:
  "fst (persist now r db) = Inl e \<Longrightarrow> snd (persist now r db) = db"
  using persist_isl_unchanged [of now r db] by simp

lemma save_rejected_unchanged:
  "fst (save now r db) = Inl e \<Longrightarrow> snd (save now r db) = db"
  by (cases "pre_save r") (simp_all add: save_def persist_rejected_unchanged)

text \<open>
  Claim C3. Validation fails with \<open>MissingPublishTimestamp\<close> exactly when the state is
  PUBLISH and the publish timestamp is absent, and so does the write; the failing write
  returns the table unchanged.
\<close>

theorem save_missing_publish_timestamp:
  "(clean r = Inl MissingPublishTimestamp \<longleftrightarrow>
      state r = PUBLISH \<and> publish_timestamp r = None) \<and>
   (fst (save now r db) = Inl MissingPublishTimestamp \<longleftrightarrow>
      state r = PUBLISH \<and> publish_timestamp r = None) \<and>
   (state r = PUBLISH \<and> publish_timestamp r = None \<longrightarrow>
      save now r db = (Inl MissingPublishTimestamp, db))"
proof (cases "state r = PUBLISH \<and> publish_timestamp r = None")
  case True
  then show ?thesis
    by (simp add: save_def pre_save_fail clean_fails_iff)
next
  case False
  then have "fst (save now r db) \<noteq> Inl MissingPublishTimestamp"
    by (simp add: save_def pre_save_ok persist_no_validation_error)
  with False show ?thesis
    by (auto simp: clean_fails_iff)
qed

theorem save_missing_publish_timestamp_witness:
  "save 5 ((scheduled 100)\<lparr>publish_timestamp := None\<rparr>) [scheduled 100] =
     (Inl MissingPublishTimestamp, [scheduled 100]) \<and>
   clean ((scheduled 100)\<lparr>publish_timestamp := None\<rparr>) = Inl MissingPublishTimestamp \<and>
   clean (scheduled 100) = Inr ()"
  using
    save_missing_publish_timestamp
      [of "(scheduled 100)\<lparr>publish_timestamp := None\<rparr>" 5 "[scheduled 100]"]
    save_missing_publish_timestamp [of "scheduled 100" 5 "[scheduled 100]"]
    clean_cases [of "scheduled 100"]
  by (simp add: scheduled_def)

section \<open>The invariant of the stored records\<close>

lemma slugify_pre_save_invariant: "video_invariant (slugify_pre_save r) = video_invariant r"
  by (simp add: slugify_pre_save_def video_invariant_def)

lemma pre_save_invariant:
  assumes "pre_save r = Inr r'"
  shows "video_invariant r'"
proof (cases "state r = PUBLISH \<and> publish_timestamp r = None")
  case True
  with assms show ?thesis
    by (simp add: pre_save_fail)
next
  case False
  then have "video_invariant r"
    by (auto simp: video_invariant_def)
  moreover have "r' = slugify_pre_save r"
    using assms False by (simp add: pre_save_ok)
  ultimately show ?thesis
    by (simp add: slugify_pre_save_invariant)
qed

lemma persist_invariant:
  assumes "video_invariant r" and "db_invariant db"
  shows "db_invariant (snd (persist now r db))"
proof -
  have upd: "\<And>f. video_invariant (r\<lparr>created := f, updated := now\<rparr>)"
    and ins: "\<And>i. video_invariant (r\<lparr>pk := i, created := now, updated := now\<rparr>)"
    using assms(1) by (simp_all add: video_invariant_def)
  show ?thesis
    using assms(2) upd ins
    by (auto simp: persist_def Let_def db_invariant_def list_all_iff split: option.splits)
qed

lemma save_invariant: "db_invariant db \<Longrightarrow> db_invariant (snd (save now r db))"
  by (cases "pre_save r") (simp_all add: save_def persist_invariant pre_save_invariant)

lemma unpublish_invariant:
  "db_invariant db \<Longrightarrow> db_invariant (snd (unpublish_selected q db))"
  by (auto simp: unpublish_selected_result db_invariant_def list_all_iff video_invariant_def)

lemma reachable_db_invariant: "reachable db \<Longrightarrow> db_invariant db"
proof (induction rule: reachable.induct)
  case empty
  show ?case by (simp add: db_invariant_def)
next
  case (saved db now r)
  then show ?case by (simp add: save_invariant)
next
  case (unpublished db queryset)
  then show ?case by (simp add: unpublish_invariant)
qed

lemma save_example:
  "save 5 ((scheduled 100)\<lparr>pk := None\<rparr>) [] =
     (Inr ((scheduled 100)\<lparr>created := 5, updated := 5\<rparr>),
      [(scheduled 100)\<lparr>created := 5, updated := 5\<rparr>])"
  by (simp add: save_def pre_save_def publish_state_pre_save_def clean_def slugify_pre_save_def
      persist_def Let_def fresh_pk_def scheduled_def)

text \<open>
  Claim C4. In every table that saves and bulk actions can produce from the empty
  table, every record whose state is PUBLISH has a publish timestamp. Every write
  keeps it so: a save leaves a table that satisfies the invariant, a rejected save
  leaves the table as it was, and the bulk action leaves a table that satisfies the
  invariant.
\<close>

theorem stored_records_keep_invariant:
  assumes "reachable db"
  shows "(\<forall>x \<in> set db. state x = PUBLISH \<longrightarrow> publish_timestamp x \<noteq> None) \<and>
         db_invariant (snd (save now r db)) \<and>
         (\<forall>e. fst (save now r db) = Inl e \<longrightarrow> snd (save now r db) = db) \<and>
         db_invariant (snd (unpublish_selected q db))"
proof -
  have inv: "db_invariant db"
    using assms by (rule reachable_db_invariant)
  then have "\<forall>x \<in> set db. state x = PUBLISH \<longrightarrow> publish_timestamp x \<noteq> None"
    by (simp add: db_invariant_def list_all_iff video_invariant_def)
  moreover have "\<forall>e. fst (save now r db) = Inl e \<longrightarrow> snd (save now r db) = db"
    by (simp add: save_rejected_unchanged)
  ultimately show ?thesis
    using inv by (simp add: save_invariant unpublish_invariant)
qed

theorem stored_records_keep_invariant_witness:
  "reachable [(scheduled 100)\<lparr>created := 5, updated := 5\<rparr>] \<and>
   db_invariant [(scheduled 100)\<lparr>created := 5, updated := 5\<rparr>] \<and>
   snd (save 9 ((scheduled 100)\<lparr>publish_timestamp := None\<rparr>)
          [(scheduled 100)\<lparr>created := 5, updated := 5\<rparr>])
     = [(scheduled 100)\<lparr>created := 5, updated := 5\<rparr>]"
proof -
  have "reachable (snd (save 5 ((scheduled 100)\<lparr>pk := None\<rparr>) []))"
    by (rule reachable.saved) (rule reachable.empty)
  then have reach: "reachable [(scheduled 100)\<lparr>created := 5, updated := 5\<rparr>]"
    by (simp add: save_example)
  have "fst (save 9 ((scheduled 100)\<lparr>publish_timestamp := None\<rparr>)
               [(scheduled 100)\<lparr>created := 5, updated := 5\<rparr>])
      = Inl MissingPublishTimestamp"
    by (simp add: save_def pre_save_def publish_state_pre_save_def clean_def scheduled_def)
  with reach
    stored_records_keep_invariant
      [OF reach, of 9 "(scheduled 100)\<lparr>publish_timestamp := None\<rparr>" "\<lambda>_. True"]
  show ?thesis
    by (simp add: db_invariant_def video_invariant_def scheduled_def)
qed

section \<open>The slug\<close>

lemma of_char_to_lower:
  "is_upper c \<Longrightarrow> (of_char (to_lower c) :: nat) = of_char c + 32"
  by (simp add: to_lower_def is_upper_def)

lemma to_lower_lower_or_digit:
  "is_alnum c \<Longrightarrow> is_lower (to_lower c) \<or> is_digit (to_lower c)"
proof (cases "is_upper c")
  case True
  then show ?thesis
    using of_char_to_lower [OF True] by (simp add: is_lower_def is_upper_def)
next
  case False
  then show "is_alnum c \<Longrightarrow> ?thesis"
    by (simp add: to_lower_def is_alnum_def)
qed

lemma lower_or_digit_not_sep: "is_lower c \<or> is_digit c \<Longrightarrow> c \<noteq> separator"
  by (auto simp: is_lower_def is_digit_def separator_def)

lemma to_lower_slug_char: "is_alnum c \<Longrightarrow> slug_char (to_lower c)"
  using to_lower_lower_or_digit [of c] by (auto simp: slug_char_def)

lemma to_lower_not_sep: "is_alnum c \<Longrightarrow> to_lower c \<noteq> separator"
  using to_lower_lower_or_digit [of c] lower_or_digit_not_sep [of "to_lower c"] by simp

lemma separator_slug_char: "slug_char separator"
  by (simp add: slug_char_def)

lemma collapse_chars: "list_all slug_char (collapse b s)"
  by (induction s arbitrary: b) (simp_all add: to_lower_slug_char separator_slug_char)

lemma collapse_no_double:
  "no_double (collapse b s) \<and> (b \<longrightarrow> collapse b s = [] \<or> hd (collapse b s) \<noteq> separator)"
proof (induction s arbitrary: b)
  case Nil
  show ?case by simp
next
  case (Cons c cs)
  show ?case
  proof (cases "is_alnum c")
    case True
    have "no_double (to_lower c # collapse False cs)"
      using Cons [of False] to_lower_not_sep [OF True]
      by (cases "collapse False cs") auto
    with True show ?thesis
      by (simp add: to_lower_not_sep)
  next
    case False
    have "no_double (separator # collapse True cs)"
      using Cons [of True] by (cases "collapse True cs") auto
    with False Cons [of True] show ?thesis
      by simp
  qed
qed

lemma no_double_tl: "no_double (x # xs) \<Longrightarrow> no_double xs"
  by (cases xs) auto

lemma no_double_dropWhile: "no_double s \<Longrightarrow> no_double (dropWhile P s)"
  by (induction s) (auto dest: no_double_tl)

lemma rstrip_hd: "rstrip s \<noteq> [] \<Longrightarrow> hd (rstrip s) = hd s"
  by (cases s) (auto split: if_splits)

lemma no_double_rstrip: "no_double s \<Longrightarrow> no_double (rstrip s)"
proof (induction s)
  case Nil
  show ?case by simp
next
  case (Cons c cs)
  then have ih: "no_double (rstrip cs)"
    by (auto dest: no_double_tl)
  show ?case
  proof (cases "rstrip cs")
    case Nil
    then show ?thesis by simp
  next
    case (Cons d ds)
    then have "rstrip cs \<noteq> []" by simp
    then have "hd (rstrip cs) = hd cs" and "cs \<noteq> []"
      by (auto simp: rstrip_hd)
    with Cons ih \<open>no_double (c # cs)\<close> show ?thesis
      by (cases cs) auto
  qed
qed

lemma rstrip_last: "rstrip s \<noteq> [] \<Longrightarrow> last (rstrip s) \<noteq> separator"
  by (induction s) (auto split: if_splits)

lemma rstrip_subset: "set (rstrip s) \<subseteq> set s"
  by (induction s) auto

lemma slugify_url_safe: "url_safe (slugify s)"
proof -
  let ?c = "collapse False s"
  have chars: "list_all slug_char (slugify s)"
    using collapse_chars [of False s] rstrip_subset [of "lstrip ?c"]
      set_dropWhileD [of _ "\<lambda>c. c = separator" ?c]
    unfolding slugify_def lstrip_def list_all_iff by blast
  have nd: "no_double (slugify s)"
    unfolding slugify_def lstrip_def
    using collapse_no_double [of False s] by (simp add: no_double_dropWhile no_double_rstrip)
  have ends: "hd (slugify s) \<noteq> separator \<and> last (slugify s) \<noteq> separator"
    if ne: "slugify s \<noteq> []"
  proof -
    from ne have "hd (slugify s) = hd (lstrip ?c)" and "lstrip ?c \<noteq> []"
      unfolding slugify_def by (auto simp: rstrip_hd)
    moreover have "hd (lstrip ?c) \<noteq> separator"
      using \<open>lstrip ?c \<noteq> []\<close> hd_dropWhile [of "\<lambda>c. c = separator" ?c]
      unfolding lstrip_def by simp
    moreover have "last (slugify s) \<noteq> separator"
      using ne unfolding slugify_def by (rule rstrip_last)
    ultimately show ?thesis by simp
  qed
  show ?thesis
    unfolding url_safe_def using chars nd ends
    by (cases "slugify s") auto
qed

lemma slugify_hello: "slugify ''Hello, World! 2024'' = ''hello-world-2024''"
  by code_simp

text \<open>
  Claim C8. The slug assigner sets the slug to the token derived from the title
  exactly when the slug is null or empty, and leaves the record untouched otherwise;
  applying it twice is applying it once; and the derived token is URL-safe: lowercase
  letters, digits and single separators, with no separator at either end.
\<close>

theorem slugify_pre_save_assigns_if_missing:
  "(slug r = None \<or> slug r = Some [] \<longrightarrow>
      slugify_pre_save r = r\<lparr>slug := Some (slugify (title r))\<rparr>) \<and>
   (slug r \<noteq> None \<and> slug r \<noteq> Some [] \<longrightarrow> slugify_pre_save r = r) \<and>
   slugify_pre_save (slugify_pre_save r) = slugify_pre_save r \<and>
   url_safe (slugify (title r))"
  by (simp add: slugify_pre_save_def slugify_url_safe)

theorem slugify_pre_save_assigns_if_missing_witness:
  "slugify_pre_save ((scheduled 100)\<lparr>slug := None\<rparr>) = scheduled 100 \<and>
   slugify_pre_save ((scheduled 100)\<lparr>slug := Some []\<rparr>) = scheduled 100 \<and>
   slugify_pre_save ((scheduled 100)\<lparr>slug := Some ''kept''\<rparr>) =
     (scheduled 100)\<lparr>slug := Some ''kept''\<rparr> \<and>
   url_safe ''hello-world-2024''"
  using slugify_pre_save_assigns_if_missing [of "(scheduled 100)\<lparr>slug := None\<rparr>"]
    slugify_pre_save_assigns_if_missing [of "(scheduled 100)\<lparr>slug := Some []\<rparr>"]
    slugify_pre_save_assigns_if_missing [of "(scheduled 100)\<lparr>slug := Some ''kept''\<rparr>"]
  by (simp add: scheduled_def slugify_hello)

end
